theory Spec2Isabelle
  imports Main
begin

section \<open>The mail gateway of \<open>server/server.js\<close>\<close>

text \<open>
  The gateway is a set of HTTP handlers over one shared registry of IMAP connections.
  Every handler runs on a single event loop, so a request is modelled as a state
  (the handler's local variables, the pending timer and the responses written so far)
  and a step function that runs one callback to completion for one event.
\<close>

subsection \<open>Responses\<close>

text \<open>
  The fixed error texts of the handlers, and \<open>LibError m\<close> for an \<open>err.message\<close>
  that comes from the IMAP, parser or SMTP library.
\<close>

datatype err_msg =
    UngueltigeSession
  | ZeitueberschreitungEmails
  | ZeitueberschreitungEmail
  | UngueltigeEmailId
  | EmailNichtGefunden
  | LibError string

record address =
  addr_name :: string
  addr_address :: string

record folder =
  folder_id :: string
  folder_name :: string
  folder_path :: string
  unread :: nat

text \<open>
  The object the listing and the single-message handler both build: \<open>uid\<close> is
  \<open>null\<close> until the attributes arrive; dates are milliseconds since the epoch.
\<close>

record email =
  email_id :: string
  uid :: "string option"
  subject :: string
  sender :: address
  recipients :: "address list"
  date :: int
  body :: string
  isRead :: bool
  hasAttachments :: bool

text \<open>
  One value per call of \<open>res.json\<close>: \<open>Failure status msg\<close> is
  \<open>res.status(status).json({success: false, error: msg})\<close>; the others are the
  \<open>success: true\<close> bodies, the flag of \<open>EmailsOk\<close> and \<open>EmailOk\<close> telling whether
  \<open>partial: true\<close> is part of the body.
\<close>

datatype response =
    Failure nat err_msg
  | FoldersOk "folder list"
  | EmailsOk "email list" bool
  | EmailOk email bool
  | SentOk string

subsection \<open>Decimal rendering of numbers\<close>

definition digit :: "nat \<Rightarrow> char" where
  "digit d = ''0123456789'' ! d"

fun toString :: "nat \<Rightarrow> string" where
  "toString n = (if n < 10 then [digit n] else toString (n div 10) @ [digit (n mod 10)])"

declare toString.simps [simp del]

subsection \<open>Listing pipeline: \<open>GET /api/emails\<close>\<close>

text \<open>
  The range of the fetch, as the \<open>openBox\<close> callback computes it from
  \<open>box.messages.total\<close>.
\<close>

definition lastCount :: "nat \<Rightarrow> nat" where
  "lastCount tot = min 30 tot"

text \<open>\<open>lastCount\<close> is at most \<open>tot\<close>, so the subtraction below is exact.\<close>

definition start :: "nat \<Rightarrow> nat" where
  "start tot = max 1 (tot - lastCount tot + 1)"

definition range_str :: "nat \<Rightarrow> string" where
  "range_str tot = toString (start tot) @ '':'' @ toString tot"

text \<open>
  What the \<open>openBox\<close> callback does once the folder is open: answer at once, or
  issue \<open>imap.seq.fetch\<close> over a range of sequence numbers (first, last, and the
  string handed to the library).
\<close>

datatype opened = Answer response | SeqFetch nat nat string

definition openBox_emails :: "nat \<Rightarrow> opened" where
  "openBox_emails tot =
     (if tot = 0 then Answer (EmailsOk [] False)
      else SeqFetch (start tot) tot (range_str tot))"

subsection \<open>Attachment detection on the MIME structure\<close>

text \<open>
  \<open>attrs.struct\<close> as the IMAP library reports it: an array of structures, or a part
  object. Of a part the walk reads \<open>disposition\<close> (\<open>None\<close> when it is null, else the
  \<open>type\<close> string of the disposition object), \<open>params\<close> (\<open>None\<close> when null,
  \<open>Some None\<close> for a params object without \<open>name\<close>, \<open>Some (Some n)\<close> for one
  with the name \<open>n\<close>) and \<open>parts\<close> (\<open>None\<close> when the part has no such field).
\<close>

datatype struct =
    StructArray "struct list"
  | Part (disposition: "string option") (params: "string option option")
      (parts: "struct list option")

definition toLowerCase_char :: "char \<Rightarrow> char" where
  "toLowerCase_char c =
     (if (65::nat) \<le> of_char c \<and> of_char c \<le> (90::nat)
      then char_of (of_char c + (32::nat)) else c)"

definition toLowerCase :: "string \<Rightarrow> string" where
  "toLowerCase s = map toLowerCase_char s"

text \<open>The two tests of \<open>findAttachmentParts\<close> on one part object.\<close>

definition disposition_hit :: "string option \<Rightarrow> bool" where
  "disposition_hit d =
     (case d of None \<Rightarrow> False
      | Some t \<Rightarrow> toLowerCase t \<in> set [''attachment'', ''inline''])"

definition name_hit :: "string option option \<Rightarrow> bool" where
  "name_hit p =
     (case p of None \<Rightarrow> False | Some None \<Rightarrow> False | Some (Some n) \<Rightarrow> n \<noteq> [])"

text \<open>
  \<open>findAttachmentParts(struct, attachments)\<close>: the array \<open>attachments\<close> is threaded
  through the walk; a part is pushed once for each test it passes.
\<close>

fun findAttachmentParts :: "struct \<Rightarrow> struct list \<Rightarrow> struct list"
  and findAttachmentParts_each :: "struct list \<Rightarrow> struct list \<Rightarrow> struct list" where
  "findAttachmentParts (StructArray items) attachments =
     findAttachmentParts_each items attachments"
| "findAttachmentParts (Part d p ps) attachments =
     (let a1 = (if disposition_hit d then attachments @ [Part d p ps] else attachments);
          a2 = (if name_hit p then a1 @ [Part d p ps] else a1)
      in case ps of None \<Rightarrow> a2 | Some sub \<Rightarrow> findAttachmentParts_each sub a2)"
| "findAttachmentParts_each [] attachments = attachments"
| "findAttachmentParts_each (item # items) attachments =
     findAttachmentParts_each items (findAttachmentParts item attachments)"

text \<open>Every part object of a structure, at any depth, arrays looked through.\<close>

fun nodes :: "struct \<Rightarrow> struct list"
  and nodes_each :: "struct list \<Rightarrow> struct list" where
  "nodes (StructArray items) = nodes_each items"
| "nodes (Part d p ps) =
     Part d p ps # (case ps of None \<Rightarrow> [] | Some sub \<Rightarrow> nodes_each sub)"
| "nodes_each [] = []"
| "nodes_each (item # items) = nodes item @ nodes_each items"

subsection \<open>Listing pipeline: the streamed fetch\<close>

text \<open>
  The attributes of one fetched message (\<open>uid\<close> is a number, absent or zero when
  falsy) and the header fields after \<open>Imap.parseHeader\<close> and the address patterns:
  \<open>None\<close> where the header is missing, and for the date also where it does not parse.
\<close>

record attrs =
  attrs_uid :: "nat option"
  attrs_flags :: "string list option"
  attrs_struct :: "struct option"

record header =
  header_subject :: "string option"
  header_from :: "address option"
  header_to :: "address list option"
  header_date :: "int option"

definition new_email :: "nat \<Rightarrow> int \<Rightarrow> email" where
  "new_email seqno now =
     \<lparr>email_id = toString seqno, uid = None, subject = [],
      sender = \<lparr>addr_name = [], addr_address = []\<rparr>,
      recipients = [\<lparr>addr_name = [], addr_address = []\<rparr>],
      date = now, body = [], isRead = True, hasAttachments = False\<rparr>"

definition on_attributes :: "attrs \<Rightarrow> email \<Rightarrow> email" where
  "on_attributes a e =
     (let e1 = (case attrs_uid a of
                  None \<Rightarrow> e
                | Some u \<Rightarrow> if u = 0 then e
                    else e\<lparr>uid := Some (toString u), email_id := toString u\<rparr>);
          e2 = e1\<lparr>isRead := (case attrs_flags a of None \<Rightarrow> False
                               | Some fs \<Rightarrow> (CHR 0x5C # ''Seen'') \<in> set fs)\<rparr>
      in case attrs_struct a of
           None \<Rightarrow> e2
         | Some s \<Rightarrow> e2\<lparr>hasAttachments := (0 < length (findAttachmentParts s []))\<rparr>)"

definition on_body :: "header \<Rightarrow> int \<Rightarrow> email \<Rightarrow> email" where
  "on_body h now e =
     (let e1 = (case header_subject h of None \<Rightarrow> e | Some s \<Rightarrow> e\<lparr>subject := s\<rparr>);
          e2 = (case header_from h of None \<Rightarrow> e1 | Some f \<Rightarrow> e1\<lparr>sender := f\<rparr>);
          e3 = (case header_to h of None \<Rightarrow> e2 | Some t \<Rightarrow> e2\<lparr>recipients := t\<rparr>)
      in case header_date h of None \<Rightarrow> e3\<lparr>date := now\<rparr> | Some d \<Rightarrow> e3\<lparr>date := d\<rparr>)"

text \<open>
  The events the event loop can deliver to one listing request after the fetch was
  issued. \<open>Message\<close> is one message from its \<open>message\<close> event to its \<open>end\<close> event,
  with the attributes and the header it brought (if any) and the clock.
\<close>

datatype listing_event =
    Message nat int "attrs option" "header option"
  | FetchError string
  | FetchEnd
  | Timeout

text \<open>
  The variables every guarded request shares: the flag, whether the timer of
  \<open>setTimeout\<close> is still pending, and the calls of \<open>res.json\<close> so far, in order.
\<close>

record request =
  hasResponded :: bool
  timeout :: bool
  sent :: "response list"

record listing = request +
  emails :: "email list"
  on_error :: bool
  on_end :: bool

definition listing_init :: listing where
  "listing_init =
     \<lparr>hasResponded = False, timeout = True, sent = [], emails = [],
      on_error = True, on_end = True\<rparr>"

text \<open>
  The comparator of the final sort. Every date in \<open>emails\<close> is a valid date (the body
  handler replaces an invalid one by the clock), so the comparator's branch for an
  unparseable date never runs and the sort is the stable sort by descending date.
\<close>

definition compare_emails :: "email \<Rightarrow> email \<Rightarrow> int" where
  "compare_emails a b = date b - date a"

fun insert_sorted :: "email \<Rightarrow> email list \<Rightarrow> email list" where
  "insert_sorted x [] = [x]"
| "insert_sorted x (y # ys) =
     (if compare_emails x y < 0 then x # y # ys else y # insert_sorted x ys)"

definition sort_emails :: "email list \<Rightarrow> email list" where
  "sort_emails xs = foldl (\<lambda>acc x. insert_sorted x acc) [] xs"

fun listing_step :: "listing \<Rightarrow> listing_event \<Rightarrow> listing" where
  "listing_step s (Message seqno now a h) =
     (let e0 = new_email seqno now;
          e1 = (case a of None \<Rightarrow> e0 | Some at \<Rightarrow> on_attributes at e0);
          e2 = (case h of None \<Rightarrow> e1 | Some hdr \<Rightarrow> on_body hdr now e1)
      in s\<lparr>emails := emails s @ [e2]\<rparr>)"
| "listing_step s Timeout =
     (if \<not> timeout s then s
      else let s1 = s\<lparr>timeout := False\<rparr> in
        if hasResponded s1 then s1
        else if emails s1 \<noteq> []
          then s1\<lparr>hasResponded := True, sent := sent s1 @ [EmailsOk (emails s1) True]\<rparr>
          else s1\<lparr>hasResponded := True,
                  sent := sent s1 @ [Failure 500 ZeitueberschreitungEmails]\<rparr>)"
| "listing_step s (FetchError err) =
     (if \<not> on_error s then s
      else let s1 = s\<lparr>on_error := False\<rparr> in
        if hasResponded s1 then s1
        else if emails s1 \<noteq> []
          then s1\<lparr>timeout := False, hasResponded := True,
                  sent := sent s1 @ [EmailsOk (emails s1) True]\<rparr>
          else s1\<lparr>timeout := False, hasResponded := True,
                  sent := sent s1 @ [Failure 500 (LibError err)]\<rparr>)"
| "listing_step s FetchEnd =
     (if \<not> on_end s then s
      else let s1 = s\<lparr>on_end := False, timeout := False\<rparr> in
        if hasResponded s1 then s1
        else s1\<lparr>hasResponded := True, emails := sort_emails (emails s1),
                sent := sent s1 @ [EmailsOk (sort_emails (emails s1)) False]\<rparr>)"

fun is_message :: "listing_event \<Rightarrow> bool" where
  "is_message (Message seqno now a h) = True"
| "is_message ev = False"

definition listing_run :: "listing_event list \<Rightarrow> listing" where
  "listing_run evs = foldl listing_step listing_init evs"

subsection \<open>Folder lister: \<open>GET /api/folders\<close>\<close>

text \<open>
  The object \<open>imap.getBoxes\<close> hands over: for every mailbox name a box with the
  hierarchy delimiter the server reported for it and its children (null, or again such
  an object). An object is the list of its entries in the order of \<open>Object.keys\<close>.
\<close>

datatype box = Box (delimiter: string) (children: "(string \<times> box) list option")

fun processBoxes :: "(string \<times> box) list \<Rightarrow> string \<Rightarrow> folder list" where
  "processBoxes [] path = []"
| "processBoxes ((name, Box d ch) # boxObj) path =
     (let fullPath = (if path \<noteq> [] then path @ name else name) in
        \<lparr>folder_id = fullPath, folder_name = name, folder_path = fullPath, unread = 0\<rparr>
        # (case ch of None \<Rightarrow> [] | Some c \<Rightarrow> processBoxes c (fullPath @ ''/''))
        @ processBoxes boxObj path)"

text \<open>
  The names from the root down to each node of the tree, one chain per node, parents
  before children.
\<close>

fun chains :: "string list \<Rightarrow> (string \<times> box) list \<Rightarrow> string list list" where
  "chains anc [] = []"
| "chains anc ((name, Box d ch) # boxObj) =
     (anc @ [name])
     # (case ch of None \<Rightarrow> [] | Some c \<Rightarrow> chains (anc @ [name]) c)
     @ chains anc boxObj"

fun join :: "string \<Rightarrow> string list \<Rightarrow> string" where
  "join sep [] = []"
| "join sep [x] = x"
| "join sep (x # y # ys) = x @ sep @ join sep (y # ys)"

definition entry :: "string list \<Rightarrow> folder" where
  "entry names =
     \<lparr>folder_id = join ''/'' names, folder_name = last names,
      folder_path = join ''/'' names, unread = 0\<rparr>"

text \<open>
  The folder list as the specification words it: the path of a child is the path of
  its parent, the hierarchy delimiter the server reported for the parent, and the
  child's name.
\<close>

fun spec_folders :: "(string \<times> box) list \<Rightarrow> string \<Rightarrow> folder list" where
  "spec_folders [] path = []"
| "spec_folders ((name, Box d ch) # boxObj) path =
     (let fullPath = path @ name in
        \<lparr>folder_id = fullPath, folder_name = name, folder_path = fullPath, unread = 0\<rparr>
        # (case ch of None \<Rightarrow> [] | Some c \<Rightarrow> spec_folders c (fullPath @ d))
        @ spec_folders boxObj path)"

subsection \<open>Sanitising the HTML body\<close>

text \<open>
  The three patterns of the sanitiser, each as a matcher that tells how many characters
  the pattern consumes at the head of a string, if it matches there. None of the
  patterns has a choice left after its greedy first try: a shorter run of a negated class
  or of \<open>\w\<close> is followed by a character the next piece cannot take. The \<open>i\<close> flag
  folds the case of ASCII letters only.
\<close>

definition isWordChar :: "char \<Rightarrow> bool" where
  "isWordChar c =
     (let n = (of_char c :: nat) in
        (48 \<le> n \<and> n \<le> 57) \<or> (65 \<le> n \<and> n \<le> 90) \<or> (97 \<le> n \<and> n \<le> 122) \<or> n = 95)"

fun startsWith :: "string \<Rightarrow> string \<Rightarrow> bool" where
  "startsWith [] s = True"
| "startsWith (p # ps) [] = False"
| "startsWith (p # ps) (c # cs) = (c = p \<and> startsWith ps cs)"

fun startsWith_ci :: "string \<Rightarrow> string \<Rightarrow> bool" where
  "startsWith_ci [] s = True"
| "startsWith_ci (p # ps) [] = False"
| "startsWith_ci (p # ps) (c # cs) = (toLowerCase_char c = p \<and> startsWith_ci ps cs)"

text \<open>
  \<open>[^<]*(?:(?!<\/script>)<[^<]*)*<\/script>\<close>: run over everything up to the first
  closing tag and over the tag.
\<close>

fun script_tail :: "string \<Rightarrow> nat option" where
  "script_tail [] = None"
| "script_tail (c # cs) =
     (if c \<noteq> CHR ''<'' then map_option Suc (script_tail cs)
      else if startsWith_ci ''</script>'' (c # cs) then Some 9
      else map_option Suc (script_tail cs))"

text \<open>\<open>\b\<close> after the \<open>t\<close> of \<open><script\<close>: the next character is not a word character.\<close>

definition word_boundary :: "string \<Rightarrow> bool" where
  "word_boundary s = (case s of [] \<Rightarrow> True | c # _ \<Rightarrow> \<not> isWordChar c)"

definition match_script :: "string \<Rightarrow> nat option" where
  "match_script s =
     (if startsWith_ci ''<script'' s \<and> word_boundary (drop 7 s)
      then map_option (\<lambda>n. 7 + n) (script_tail (drop 7 s)) else None)"

text \<open>\<open>on\w+="[^"]*"\<close> and \<open>on\w+='[^']*'\<close>, the quote being the parameter.\<close>

definition match_handler :: "char \<Rightarrow> string \<Rightarrow> nat option" where
  "match_handler q s =
     (if \<not> startsWith ''on'' s then None
      else let w = length (takeWhile isWordChar (drop 2 s));
               r = drop (2 + w) s in
        if w = 0 \<or> \<not> startsWith [CHR ''='', q] r then None
        else let v = length (takeWhile (\<lambda>c. c \<noteq> q) (drop 2 r)) in
          case drop (2 + v) r of [] \<Rightarrow> None | _ # _ \<Rightarrow> Some (2 + w + 2 + v + 1))"

text \<open>
  \<open>s.replace(re, '')\<close> with the \<open>g\<close> flag: the matches are looked for from left to
  right, each search starting where the match before ended, and the text between the
  matches is kept. No match of the three patterns is empty.
\<close>

fun remove_all :: "(string \<Rightarrow> nat option) \<Rightarrow> string \<Rightarrow> string" where
  "remove_all m [] = []"
| "remove_all m (c # cs) =
     (case m (c # cs) of
        None \<Rightarrow> c # remove_all m cs
      | Some n \<Rightarrow> remove_all m (drop (n - 1) cs))"

fun contains_match :: "(string \<Rightarrow> nat option) \<Rightarrow> string \<Rightarrow> bool" where
  "contains_match m [] = False"
| "contains_match m (c # cs) = (m (c # cs) \<noteq> None \<or> contains_match m cs)"

definition dquote :: char where
  "dquote = CHR 0x22"

definition squote :: char where
  "squote = CHR 0x27"

definition sanitize :: "string \<Rightarrow> string" where
  "sanitize html =
     remove_all (match_handler squote)
       (remove_all (match_handler dquote) (remove_all match_script html))"

text \<open>
  What \<open>simpleParser\<close> delivers, as far as the handlers read it. A field is \<open>None\<close>
  when it is undefined (or \<open>false\<close>, as \<open>html\<close> is for a message without HTML part).
  An address object has the parsed addresses and the header text. \<open>from\<close> is one
  address object; \<open>to\<close> is one address object, or an array of them when the message
  has several \<open>To\<close> header lines.
\<close>

record address_object =
  ao_value :: "address list"
  ao_text :: string

datatype address_field = Single address_object | Several "address_object list"

datatype js_error = TypeError

record parsed =
  parsed_subject :: "string option"
  parsed_from :: "address_object option"
  parsed_to :: "address_field option"
  parsed_date :: "int option"
  parsed_text :: "string option"
  parsed_html :: "string option"
  parsed_textAsHtml :: "string option"
  parsed_attachments :: "string list option"

text \<open>
  A string in a condition or before \<open>||\<close>: undefined and the empty string are falsy.
  The body of the message is chosen by the chain below; the \<open>catch\<close> around the three
  \<open>replace\<close> calls has nothing to catch, since \<open>replace\<close> on a string and a
  pattern does not throw.
\<close>

definition truthy :: "string option \<Rightarrow> bool" where
  "truthy v = (case v of None \<Rightarrow> False | Some s \<Rightarrow> s \<noteq> [])"

definition or_else :: "string option \<Rightarrow> string \<Rightarrow> string" where
  "or_else v d = (case v of None \<Rightarrow> d | Some s \<Rightarrow> if s = [] then d else s)"

definition replace_char :: "char \<Rightarrow> string \<Rightarrow> string \<Rightarrow> string" where
  "replace_char c r s = concat (map (\<lambda>x. if x = c then r else [x]) s)"

definition keinen_Inhalt :: string where
  "keinen_Inhalt = ''<p>Diese E-Mail enth'' @ [CHR 0xE4] @ ''lt keinen Inhalt</p>''"

definition sanitizedHtml :: "parsed \<Rightarrow> string" where
  "sanitizedHtml p =
     (if truthy (parsed_html p) then sanitize (or_else (parsed_html p) [])
      else if truthy (parsed_textAsHtml p) then or_else (parsed_textAsHtml p) []
      else if truthy (parsed_text p)
        then ''<pre>''
          @ replace_char CHR ''>'' ''&gt;''
              (replace_char CHR ''<'' ''&lt;''
                 (replace_char CHR ''&'' ''&amp;'' (or_else (parsed_text p) [])))
          @ ''</pre>''
      else keinen_Inhalt)"

subsection \<open>Single-message pipeline: \<open>GET /api/email/:id\<close>\<close>

text \<open>
  \<open>parsed.to ? parsed.to.value.map(...) : []\<close>: an array of address objects is
  truthy and has no \<open>value\<close>, so \<open>map\<close> is called on undefined and the
  expression throws.
\<close>

definition to_recipients :: "address_field option \<Rightarrow> js_error + address list" where
  "to_recipients f =
     (case f of
        None \<Rightarrow> Inr []
      | Some (Single t) \<Rightarrow>
          Inr (map (\<lambda>a. \<lparr>addr_name = addr_name a, addr_address = addr_address a\<rparr>) (ao_value t))
      | Some (Several ts) \<Rightarrow> Inl TypeError)"

text \<open>
  The object \<open>emailData\<close> of the \<open>then\<close> callback, built after the body was
  chosen, or the exception of building it.
\<close>

definition emailData :: "string \<Rightarrow> parsed \<Rightarrow> int \<Rightarrow> js_error + email" where
  "emailData ident p now =
     (case to_recipients (parsed_to p) of
        Inl err \<Rightarrow> Inl err
      | Inr rs \<Rightarrow>
          Inr \<lparr>email_id = ident, uid = None,
               subject = or_else (parsed_subject p) ''Kein Betreff'',
               sender = (case parsed_from p of
                           None \<Rightarrow> \<lparr>addr_name = [], addr_address = []\<rparr>
                         | Some f \<Rightarrow> (case ao_value f of
                               [] \<Rightarrow> \<lparr>addr_name = [], addr_address = []\<rparr>
                             | a # _ \<Rightarrow>
                                 \<lparr>addr_name = addr_name a, addr_address = addr_address a\<rparr>)),
               recipients = rs,
               date = (case parsed_date p of None \<Rightarrow> now | Some d \<Rightarrow> d),
               body = sanitizedHtml p, isRead = True,
               hasAttachments =
                 (case parsed_attachments p of None \<Rightarrow> False | Some a \<Rightarrow> 0 < length a)\<rparr>)"

definition newline :: string where
  "newline = [CHR 0x0A]"

definition fallback_body :: "string \<Rightarrow> string" where
  "fallback_body message =
     ''<div class='' @ [dquote] @ ''error-message'' @ [dquote] @ ''>'' @ newline
     @ replicate 32 CHR '' '' @ ''<h3>Diese E-Mail konnte nicht vollst'' @ [CHR 0xE4]
     @ ''ndig geladen werden</h3>'' @ newline
     @ replicate 32 CHR '' '' @ ''<p>Die E-Mail ist m'' @ [CHR 0xF6]
     @ ''glicherweise zu gro'' @ [CHR 0xDF] @ '' oder enth'' @ [CHR 0xE4]
     @ ''lt nicht unterst'' @ [CHR 0xFC] @ ''tzte Inhalte.</p>'' @ newline
     @ replicate 32 CHR '' '' @ ''<p>Technische Details: '' @ message @ ''</p>'' @ newline
     @ replicate 30 CHR '' '' @ ''</div>''"

definition fallbackEmail :: "string \<Rightarrow> string \<Rightarrow> int \<Rightarrow> email" where
  "fallbackEmail ident message now =
     \<lparr>email_id = ident, uid = None, subject = ''Fehler beim Parsen der E-Mail'',
      sender = \<lparr>addr_name = [], addr_address = []\<rparr>, recipients = [], date = now,
      body = fallback_body message, isRead = True, hasAttachments = False\<rparr>"

text \<open>
  The events of one single-message request after \<open>imap.fetch\<close> was issued. The
  sequence-number fetch is created in two places, the \<open>error\<close> and the \<open>end\<close>
  listener of the UID fetch, and its events say which of the two it came from.
  \<open>Parsed\<close> and \<open>ParseFailed\<close> are the two outcomes of the promise of
  \<open>simpleParser\<close>, \<open>StreamFailed\<close> an exception in the \<open>end\<close> listener of the body
  stream; they carry the clock where the listener reads it.
\<close>

datatype origin = FromError | FromEnd

datatype single_event =
    Watchdog
  | Parsed parsed int
  | ParseFailed string int
  | StreamFailed string
  | UidFetchError string
  | UidFetchEnd
  | SeqMessage origin
  | SeqError string
  | SeqEnd origin

text \<open>
  The listeners registered with \<open>once\<close> are flags that go down when the listener
  has run. The sequence-number fetch of the \<open>error\<close> listener has an \<open>error\<close> and an
  \<open>end\<close> listener, the one of the \<open>end\<close> listener an \<open>end\<close> listener only; neither
  has a \<open>message\<close> listener. \<open>setFlags\<close> counts the calls of \<open>imap.setFlags\<close>.
  An exception in the \<open>then\<close> callback of the parser goes to the \<open>catch\<close> callback of
  the same chain, which answers only while \<open>fetchCompleted\<close> is false: after the
  \<open>then\<close> callback has set it, the exception is logged and nothing is sent.
\<close>

record single = request +
  fetchCompleted :: bool
  fetchStarted :: bool
  uid_on_error :: bool
  uid_on_end :: bool
  seqE_on_error :: bool
  seqE_on_end :: bool
  seqN_on_end :: bool
  setFlags :: nat

definition single_init :: single where
  "single_init =
     \<lparr>hasResponded = False, timeout = True, sent = [],
      fetchCompleted = False, fetchStarted = True,
      uid_on_error = True, uid_on_end = True,
      seqE_on_error = False, seqE_on_end = False, seqN_on_end = False, setFlags = 0\<rparr>"

text \<open>The guarded exits: \<open>hasResponded = true; clearTimeout(timeout); res...json(r)\<close>.\<close>

definition respond :: "response \<Rightarrow> single \<Rightarrow> single" where
  "respond r s = s\<lparr>hasResponded := True, timeout := False, sent := sent s @ [r]\<rparr>"

text \<open>
  One listener run to completion. \<open>seq_throws\<close> is the message of the exception of
  \<open>imap.seq.fetch\<close>, if the call throws.
\<close>

fun single_step :: "string \<Rightarrow> string option \<Rightarrow> single \<Rightarrow> single_event \<Rightarrow> single" where
  "single_step ident seq_throws s Watchdog =
     (if \<not> timeout s then s
      else s\<lparr>timeout := False, sent := sent s @ [Failure 504 ZeitueberschreitungEmail]\<rparr>)"
| "single_step ident seq_throws s (Parsed p now) =
     (if fetchCompleted s then s
      else let s1 = s\<lparr>fetchCompleted := True\<rparr> in
        case emailData ident p now of
          Inl err \<Rightarrow> s1
        | Inr e \<Rightarrow>
            let s2 = s1\<lparr>setFlags := Suc (setFlags s1)\<rparr> in
              if hasResponded s2 then s2 else respond (EmailOk e False) s2)"
| "single_step ident seq_throws s (ParseFailed message now) =
     (if \<not> hasResponded s \<and> \<not> fetchCompleted s
      then respond (EmailOk (fallbackEmail ident message now) True) (s\<lparr>fetchCompleted := True\<rparr>)
      else s)"
| "single_step ident seq_throws s (StreamFailed message) =
     (if \<not> hasResponded s then respond (Failure 500 (LibError message)) s else s)"
| "single_step ident seq_throws s (UidFetchError err) =
     (if \<not> uid_on_error s then s
      else let s1 = s\<lparr>uid_on_error := False\<rparr> in
        if \<not> hasResponded s1 \<and> \<not> fetchCompleted s1
        then (case seq_throws of
                None \<Rightarrow> s1\<lparr>seqE_on_error := True, seqE_on_end := True\<rparr>
              | Some message \<Rightarrow>
                  if \<not> hasResponded s1 then respond (Failure 500 (LibError message)) s1 else s1)
        else s1)"
| "single_step ident seq_throws s UidFetchEnd =
     (if \<not> uid_on_end s then s
      else let s1 = s\<lparr>uid_on_end := False\<rparr> in
        if \<not> hasResponded s1 \<and> \<not> fetchCompleted s1 \<and> fetchStarted s1
        then (case seq_throws of
                None \<Rightarrow> s1\<lparr>seqN_on_end := True\<rparr>
              | Some message \<Rightarrow>
                  if \<not> hasResponded s1 then respond (Failure 500 (LibError message)) s1 else s1)
        else s1)"
| "single_step ident seq_throws s (SeqMessage fetch_origin) = s"
| "single_step ident seq_throws s (SeqError err) =
     (if \<not> seqE_on_error s then s
      else let s1 = s\<lparr>seqE_on_error := False\<rparr> in
        if \<not> hasResponded s1 then respond (Failure 500 (LibError err)) s1 else s1)"
| "single_step ident seq_throws s (SeqEnd FromError) =
     (if \<not> seqE_on_end s then s
      else let s1 = s\<lparr>seqE_on_end := False\<rparr> in
        if \<not> hasResponded s1 \<and> \<not> fetchCompleted s1
        then respond (Failure 404 EmailNichtGefunden) s1 else s1)"
| "single_step ident seq_throws s (SeqEnd FromEnd) =
     (if \<not> seqN_on_end s then s
      else let s1 = s\<lparr>seqN_on_end := False\<rparr> in
        if \<not> hasResponded s1 \<and> \<not> fetchCompleted s1
        then respond (Failure 404 EmailNichtGefunden) s1 else s1)"

definition single_run :: "string \<Rightarrow> string option \<Rightarrow> single_event list \<Rightarrow> single" where
  "single_run ident seq_throws evs = foldl (single_step ident seq_throws) single_init evs"

subsection \<open>Session registry and the request boundary\<close>

text \<open>
  \<open>activeConnections\<close> maps a session id to its connection; of a connection the
  handlers read \<open>imap._config\<close>. \<open>sessionId\<close> is \<open>None\<close> when the request has none.
\<close>

record connection =
  config_user :: string
  config_password :: string
  config_host :: string

type_synonym registry = "string \<rightharpoonup> connection"

definition has :: "registry \<Rightarrow> string option \<Rightarrow> bool" where
  "has activeConnections sessionId =
     (case sessionId of None \<Rightarrow> False | Some k \<Rightarrow> activeConnections k \<noteq> None)"

definition get :: "registry \<Rightarrow> string option \<Rightarrow> connection option" where
  "get activeConnections sessionId =
     (case sessionId of None \<Rightarrow> None | Some k \<Rightarrow> activeConnections k)"

text \<open>
  The first statement of the five handlers: \<open>None\<close> is the early return with
  status 401, otherwise the connection the handler goes on with.
\<close>

definition session :: "registry \<Rightarrow> string option \<Rightarrow> connection option" where
  "session activeConnections sessionId =
     (if \<not> truthy sessionId \<or> \<not> has activeConnections sessionId then None
      else get activeConnections sessionId)"

text \<open>
  A handler is a function from the request and from what the connection (and the
  SMTP transport) will do to the list of the calls of \<open>res.json\<close>, in order. What the
  connection does is a function of the connection, so that a result that does not
  depend on it was computed without it. \<open>Inl err\<close> from \<open>getBoxes\<close> or
  \<open>openBox\<close> is an error handed to the callback or thrown by the call: the handlers
  answer both with status 500 and the message.
\<close>

definition get_folders ::
  "registry \<Rightarrow> string option \<Rightarrow> (connection \<Rightarrow> string + (string \<times> box) list) \<Rightarrow> response list"
where
  "get_folders activeConnections sessionId getBoxes =
     (case session activeConnections sessionId of
        None \<Rightarrow> [Failure 401 UngueltigeSession]
      | Some imap \<Rightarrow>
          (case getBoxes imap of
             Inl err \<Rightarrow> [Failure 500 (LibError err)]
           | Inr boxes \<Rightarrow> [FoldersOk (processBoxes boxes [])]))"

definition folder_or_inbox :: "string option \<Rightarrow> string" where
  "folder_or_inbox folder = (case folder of None \<Rightarrow> ''INBOX'' | Some f \<Rightarrow> f)"

definition get_emails ::
  "registry \<Rightarrow> string option \<Rightarrow> string option \<Rightarrow> (connection \<Rightarrow> string \<Rightarrow> string + nat)
     \<Rightarrow> (connection \<Rightarrow> string \<Rightarrow> listing_event list) \<Rightarrow> response list"
where
  "get_emails activeConnections sessionId folder openBox events =
     (case session activeConnections sessionId of
        None \<Rightarrow> [Failure 401 UngueltigeSession]
      | Some imap \<Rightarrow>
          (case openBox imap (folder_or_inbox folder) of
             Inl err \<Rightarrow> [Failure 500 (LibError err)]
           | Inr tot \<Rightarrow>
               (case openBox_emails tot of
                  Answer r \<Rightarrow> [r]
                | SeqFetch first lst r \<Rightarrow> sent (listing_run (events imap r)))))"

text \<open>
  The single-message handler sets its timer, rejects an empty identifier (clearing the
  timer), and issues \<open>imap.fetch\<close>; \<open>fetch_throws\<close> is the message of the
  exception of that call, if it throws, which the handler catches with a guarded
  status 500 before any listener is in place.
\<close>

definition get_email ::
  "registry \<Rightarrow> string option \<Rightarrow> string option \<Rightarrow> string
     \<Rightarrow> (connection \<Rightarrow> string \<Rightarrow> string + nat) \<Rightarrow> string option \<Rightarrow> string option
     \<Rightarrow> (connection \<Rightarrow> string \<Rightarrow> single_event list) \<Rightarrow> response list"
where
  "get_email activeConnections sessionId folder ident openBox fetch_throws seq_throws events =
     (case session activeConnections sessionId of
        None \<Rightarrow> [Failure 401 UngueltigeSession]
      | Some imap \<Rightarrow>
          (case openBox imap (folder_or_inbox folder) of
             Inl err \<Rightarrow> [Failure 500 (LibError err)]
           | Inr tot \<Rightarrow>
               if ident = [] then [Failure 400 UngueltigeEmailId]
               else (case fetch_throws of
                       Some message \<Rightarrow> [Failure 500 (LibError message)]
                     | None \<Rightarrow> sent (single_run ident seq_throws (events imap ident)))))"

subsection \<open>Outbound dispatcher\<close>

text \<open>
  A recipient field of a request is a string or an array of strings; the transport
  and the options are what \<open>nodemailer\<close> is given.
\<close>

datatype addresses = One string | Many "string list"

record smtpConfig =
  smtp_host :: "string option"
  smtp_port :: "nat option"
  smtp_secure :: "bool option"

record transport =
  transport_host :: string
  transport_port :: nat
  transport_secure :: bool
  auth_user :: string
  auth_pass :: string

record mailOptions =
  mail_from :: string
  mail_to :: "string option"
  mail_cc :: "string option"
  mail_bcc :: "string option"
  mail_subject :: "string option"
  mail_text :: "string option"
  mail_html :: "string option"
  mail_attachments :: "string list option"

text \<open>\<open>Array.isArray(to) ? to.join(',') : to\<close>, and the same behind a truthiness test.\<close>

definition toAddresses :: "addresses option \<Rightarrow> string option" where
  "toAddresses a =
     (case a of None \<Rightarrow> None | Some (One x) \<Rightarrow> Some x | Some (Many xs) \<Rightarrow> Some (join '','' xs))"

definition ccAddresses :: "addresses option \<Rightarrow> string option" where
  "ccAddresses a =
     (case a of
        None \<Rightarrow> None
      | Some (One x) \<Rightarrow> if x = [] then None else Some x
      | Some (Many xs) \<Rightarrow> Some (join '','' xs))"

text \<open>\<open>host.replace('imap.', 'smtp.')\<close>: the first occurrence only.\<close>

fun replace_first :: "string \<Rightarrow> string \<Rightarrow> string \<Rightarrow> string" where
  "replace_first pat rep [] = (if pat = [] then rep else [])"
| "replace_first pat rep (c # cs) =
     (if startsWith pat (c # cs) then rep @ drop (length pat) (c # cs)
      else c # replace_first pat rep cs)"

record outgoing =
  out_to :: "addresses option"
  out_cc :: "addresses option"
  out_bcc :: "addresses option"
  out_subject :: "string option"
  out_text :: "string option"
  out_html :: "string option"
  out_smtpConfig :: "smtpConfig option"

definition post_send_email ::
  "registry \<Rightarrow> string option \<Rightarrow> outgoing
     \<Rightarrow> (transport \<Rightarrow> mailOptions \<Rightarrow> string + string) \<Rightarrow> response list"
where
  "post_send_email activeConnections sessionId mail sendMail =
     (case session activeConnections sessionId of
        None \<Rightarrow> [Failure 401 UngueltigeSession]
      | Some imap \<Rightarrow>
          (let cfg = out_smtpConfig mail;
               smtpHost = or_else (case cfg of None \<Rightarrow> None | Some c \<Rightarrow> smtp_host c)
                            (replace_first ''imap.'' ''smtp.'' (config_host imap));
               smtpPort = (case (case cfg of None \<Rightarrow> None | Some c \<Rightarrow> smtp_port c) of
                             None \<Rightarrow> 587 | Some n \<Rightarrow> if n = 0 then 587 else n);
               smtpSecure = (case (case cfg of None \<Rightarrow> None | Some c \<Rightarrow> smtp_secure c) of
                               None \<Rightarrow> False | Some b \<Rightarrow> b);
               transporter = \<lparr>transport_host = smtpHost, transport_port = smtpPort,
                              transport_secure = smtpSecure, auth_user = config_user imap,
                              auth_pass = config_password imap\<rparr>;
               options = \<lparr>mail_from = config_user imap, mail_to = toAddresses (out_to mail),
                          mail_cc = ccAddresses (out_cc mail),
                          mail_bcc = ccAddresses (out_bcc mail),
                          mail_subject = out_subject mail, mail_text = out_text mail,
                          mail_html = out_html mail, mail_attachments = None\<rparr>
           in case sendMail transporter options of
                Inl err \<Rightarrow> [Failure 500 (LibError err)]
              | Inr messageId \<Rightarrow> [SentOk messageId]))"

subsection \<open>Forwarding: \<open>POST /api/forward-email\<close>\<close>

text \<open>
  The promise around the fetch of the original. Its callbacks are the events: the
  \<open>openBox\<close> callback with an error, the two outcomes of \<open>simpleParser\<close>, and the
  \<open>error\<close> and \<open>end\<close> events of the fetch (with the clock the \<open>end\<close> listener
  reads). A promise settles once: \<open>settled\<close> keeps the first rejection, or for the
  first resolution the value \<open>originalEmail\<close> has when the awaiting handler goes on,
  which is before the next event is delivered.
\<close>

datatype forward_event =
    OpenBoxError string
  | OriginalParsed parsed
  | OriginalParseError string
  | OriginalFetchError string
  | OriginalFetchEnd int

record forward_state =
  originalEmail :: "parsed option"
  settled :: "(string + parsed) option"

definition settle :: "string + parsed \<Rightarrow> forward_state \<Rightarrow> forward_state" where
  "settle r s = (case settled s of None \<Rightarrow> s\<lparr>settled := Some r\<rparr> | Some _ \<Rightarrow> s)"

definition placeholder :: "int \<Rightarrow> parsed" where
  "placeholder now =
     \<lparr>parsed_subject = Some ''Unbekannter Betreff'',
      parsed_from = Some \<lparr>ao_value = [], ao_text = ''Unbekannt''\<rparr>,
      parsed_to = Some (Single \<lparr>ao_value = [], ao_text = ''Unbekannt''\<rparr>),
      parsed_date = Some now, parsed_text = Some [], parsed_html = Some [],
      parsed_textAsHtml = None, parsed_attachments = None\<rparr>"

fun forward_step :: "forward_state \<Rightarrow> forward_event \<Rightarrow> forward_state" where
  "forward_step s (OpenBoxError err) = settle (Inl err) s"
| "forward_step s (OriginalParsed p) = settle (Inr p) (s\<lparr>originalEmail := Some p\<rparr>)"
| "forward_step s (OriginalParseError err) = settle (Inl err) s"
| "forward_step s (OriginalFetchError err) = settle (Inl err) s"
| "forward_step s (OriginalFetchEnd now) =
     (let e = (case originalEmail s of None \<Rightarrow> placeholder now | Some e \<Rightarrow> e)
      in settle (Inr e) (s\<lparr>originalEmail := Some e\<rparr>))"

definition await_original :: "forward_event list \<Rightarrow> (string + parsed) option" where
  "await_original evs =
     settled (foldl forward_step \<lparr>originalEmail = None, settled = None\<rparr> evs)"

record forward_request =
  fwd_originalEmailId :: string
  fwd_folder :: string
  fwd_to :: "addresses option"
  fwd_cc :: "addresses option"
  fwd_bcc :: "addresses option"
  fwd_additionalText :: "string option"

definition banner :: string where
  "banner = ''---------- Weitergeleitete Nachricht ----------''"

definition forward_subject :: "parsed \<Rightarrow> string" where
  "forward_subject original =
     (case parsed_subject original of
        None \<Rightarrow> ''Fwd: Kein Betreff''
      | Some t \<Rightarrow> if startsWith ''Fwd:'' t then t
                  else ''Fwd: '' @ or_else (Some t) ''Kein Betreff'')"

text \<open>
  The four quoted header values; \<open>toLocaleString\<close> renders a date in the locale of
  the process and \<open>now\<close> is the clock at the moment of composing.
\<close>

definition quoted_from :: "parsed \<Rightarrow> string" where
  "quoted_from original = or_else (map_option ao_text (parsed_from original)) ''Unbekannt''"

definition quoted_to :: "parsed \<Rightarrow> string" where
  "quoted_to original =
     or_else (case parsed_to original of
                None \<Rightarrow> None
              | Some (Single t) \<Rightarrow> Some (ao_text t)
              | Some (Several ts) \<Rightarrow> None)
       ''Unbekannt''"

definition quoted_date :: "(int \<Rightarrow> string) \<Rightarrow> int \<Rightarrow> parsed \<Rightarrow> string" where
  "quoted_date toLocaleString now original =
     or_else (map_option toLocaleString (parsed_date original)) (toLocaleString now)"

definition forwardedText :: "(int \<Rightarrow> string) \<Rightarrow> int \<Rightarrow> string option \<Rightarrow> parsed \<Rightarrow> string" where
  "forwardedText toLocaleString now additionalText original =
     (if truthy additionalText
      then or_else additionalText [] @ newline @ newline @ banner @ newline @ newline
      else banner @ newline @ newline)
     @ ''Von: '' @ quoted_from original @ newline
     @ ''Datum: '' @ quoted_date toLocaleString now original @ newline
     @ ''Betreff: '' @ or_else (parsed_subject original) ''Kein Betreff'' @ newline
     @ ''An: '' @ quoted_to original @ newline @ newline
     @ or_else (parsed_text original) []"

definition forwardedHtml :: "(int \<Rightarrow> string) \<Rightarrow> int \<Rightarrow> string option \<Rightarrow> parsed \<Rightarrow> string" where
  "forwardedHtml toLocaleString now additionalText original =
     (if \<not> truthy (parsed_html original) then []
      else
        (if truthy additionalText
         then ''<p>'' @ replace_char (CHR 0x0A) ''<br>'' (or_else additionalText [])
              @ ''</p><hr><div style='' @ [dquote] @ ''margin-top:10px;'' @ [dquote]
              @ ''><p><b>'' @ banner @ ''</b></p>''
         else ''<hr><div><p><b>'' @ banner @ ''</b></p>'')
        @ ''<p><b>Von:</b> '' @ quoted_from original @ ''</p>''
        @ ''<p><b>Datum:</b> '' @ quoted_date toLocaleString now original @ ''</p>''
        @ ''<p><b>Betreff:</b> '' @ or_else (parsed_subject original) ''Kein Betreff'' @ ''</p>''
        @ ''<p><b>An:</b> '' @ quoted_to original @ ''</p></div>''
        @ ''<div style='' @ [dquote] @ ''margin-top:10px;'' @ [dquote] @ ''>''
        @ or_else (parsed_html original) [] @ ''</div>'')"

definition forward_transport :: "connection \<Rightarrow> transport" where
  "forward_transport imap =
     \<lparr>transport_host = replace_first ''imap.'' ''smtp.'' (config_host imap),
      transport_port = 587, transport_secure = False,
      auth_user = config_user imap, auth_pass = config_password imap\<rparr>"

definition forward_options ::
  "connection \<Rightarrow> forward_request \<Rightarrow> (int \<Rightarrow> string) \<Rightarrow> int \<Rightarrow> parsed \<Rightarrow> mailOptions" where
  "forward_options imap req toLocaleString now original =
     \<lparr>mail_from = config_user imap, mail_to = toAddresses (fwd_to req),
      mail_cc = ccAddresses (fwd_cc req), mail_bcc = ccAddresses (fwd_bcc req),
      mail_subject = Some (forward_subject original),
      mail_text = Some (forwardedText toLocaleString now (fwd_additionalText req) original),
      mail_html = Some (forwardedHtml toLocaleString now (fwd_additionalText req) original),
      mail_attachments =
        Some (case parsed_attachments original of None \<Rightarrow> [] | Some a \<Rightarrow> a)\<rparr>"

text \<open>
  The handler: the session check, the awaited promise (no response while it is
  pending), and on its resolution the composed mail handed to \<open>sendMail\<close>; a
  rejection of the promise or of \<open>sendMail\<close> is caught and answered with status 500.
\<close>

definition post_forward_email ::
  "registry \<Rightarrow> string option \<Rightarrow> forward_request
     \<Rightarrow> (connection \<Rightarrow> string \<Rightarrow> string \<Rightarrow> forward_event list)
     \<Rightarrow> (transport \<Rightarrow> mailOptions \<Rightarrow> string + string)
     \<Rightarrow> (int \<Rightarrow> string) \<Rightarrow> int \<Rightarrow> response list"
where
  "post_forward_email activeConnections sessionId req events sendMail toLocaleString now =
     (case session activeConnections sessionId of
        None \<Rightarrow> [Failure 401 UngueltigeSession]
      | Some imap \<Rightarrow>
          (case await_original (events imap (fwd_folder req) (fwd_originalEmailId req)) of
             None \<Rightarrow> []
           | Some (Inl err) \<Rightarrow> [Failure 500 (LibError err)]
           | Some (Inr original) \<Rightarrow>
               (case sendMail (forward_transport imap)
                       (forward_options imap req toLocaleString now original) of
                  Inl err \<Rightarrow> [Failure 500 (LibError err)]
                | Inr messageId \<Rightarrow> [SentOk messageId])))"

subsection \<open>Concrete inputs\<close>

text \<open>A registry with the one session \<open>s1\<close>, and requests and servers to run it on.\<close>

definition a_connection :: connection where
  "a_connection =
     \<lparr>config_user = ''me@example.org'', config_password = ''secret'',
      config_host = ''imap.example.org''\<rparr>"

definition a_registry :: registry where
  "a_registry = [''s1'' \<mapsto> a_connection]"

definition a_forward :: forward_request where
  "a_forward =
     \<lparr>fwd_originalEmailId = ''42'', fwd_folder = ''INBOX'',
      fwd_to = Some (One ''you@example.org''), fwd_cc = None, fwd_bcc = None,
      fwd_additionalText = None\<rparr>"

definition fetch_fails :: "connection \<Rightarrow> string \<Rightarrow> string \<Rightarrow> forward_event list" where
  "fetch_fails imap folder ident = [OriginalFetchError ''Invalid messageset'']"

definition fetch_finds_nothing :: "connection \<Rightarrow> string \<Rightarrow> string \<Rightarrow> forward_event list" where
  "fetch_finds_nothing imap folder ident = [OriginalFetchEnd 1000]"

definition smtp_accepts :: "transport \<Rightarrow> mailOptions \<Rightarrow> string + string" where
  "smtp_accepts t m = Inr ''<1@example.org>''"

definition render_date :: "int \<Rightarrow> string" where
  "render_date d = ''1.1.1970, 01:00:01''"

text \<open>A server whose hierarchy delimiter is the dot, with a folder below the inbox.\<close>

definition dotted_boxes :: "(string \<times> box) list" where
  "dotted_boxes = [(''INBOX'', Box ''.'' (Some [(''Sent'', Box ''.'' None)]))]"

text \<open>
  Two HTML bodies: a script element whose opening tag is split by a complete, empty
  script element, and an \<open>onclick\<close> attribute split by a complete, empty one.
\<close>

definition nested_script :: string where
  "nested_script = ''<scr<script></script>ipt>alert(1)</script>''"

definition nested_handler :: string where
  "nested_handler =
     ''<a oonclick='' @ [dquote, dquote] @ ''nclick='' @ [dquote] @ ''x()'' @ [dquote] @ ''>''"

definition html_only :: "string \<Rightarrow> parsed" where
  "html_only h =
     \<lparr>parsed_subject = Some ''Hello'', parsed_from = None, parsed_to = None,
      parsed_date = Some 0, parsed_text = None, parsed_html = Some h,
      parsed_textAsHtml = None, parsed_attachments = None\<rparr>"

definition text_only :: "string \<Rightarrow> parsed" where
  "text_only t =
     \<lparr>parsed_subject = Some ''Hello'', parsed_from = None, parsed_to = None,
      parsed_date = Some 0, parsed_text = Some ''x'', parsed_html = None,
      parsed_textAsHtml = Some t, parsed_attachments = None\<rparr>"

text \<open>The same message with two \<open>To\<close> header lines.\<close>

definition two_to_lines :: "string \<Rightarrow> parsed" where
  "two_to_lines t =
     \<lparr>parsed_subject = Some ''Hello'', parsed_from = None,
      parsed_to = Some (Several
        [\<lparr>ao_value = [\<lparr>addr_name = [], addr_address = ''a@example.org''\<rparr>],
           ao_text = ''a@example.org''\<rparr>,
         \<lparr>ao_value = [\<lparr>addr_name = [], addr_address = ''b@example.org''\<rparr>],
           ao_text = ''b@example.org''\<rparr>]),
      parsed_date = Some 0, parsed_text = Some ''x'', parsed_html = None,
      parsed_textAsHtml = Some t, parsed_attachments = None\<rparr>"

text \<open>A multipart structure with an attachment two levels down.\<close>

definition a_struct :: struct where
  "a_struct =
     StructArray
       [Part None None None,
        StructArray [Part None (Some None) None],
        StructArray [StructArray [Part (Some ''ATTACHMENT'') None None]]]"

definition plain_struct :: struct where
  "plain_struct = StructArray [Part None None None, StructArray [Part None (Some None) None]]"

text \<open>Twelve messages without attributes and header, and a request without session id.\<close>

definition twelve_messages :: "listing_event list" where
  "twelve_messages = map (\<lambda>n. Message n 0 None None) [1, 2, 3, 4, 5, 6, 7, 8, 9, 10, 11, 12]"

definition no_boxes :: "connection \<Rightarrow> string + (string \<times> box) list" where
  "no_boxes imap = Inr []"

definition opens :: "connection \<Rightarrow> string \<Rightarrow> string + nat" where
  "opens imap folder = Inr 45"

definition an_outgoing :: outgoing where
  "an_outgoing =
     \<lparr>out_to = Some (One ''you@example.org''), out_cc = None, out_bcc = None,
      out_subject = Some ''Hi'', out_text = Some ''Hi'', out_html = None,
      out_smtpConfig = None\<rparr>"

definition parser_late :: "connection \<Rightarrow> string \<Rightarrow> single_event list" where
  "parser_late imap ident = [Watchdog, Parsed (html_only ''<p>Hi</p>'') 5]"

definition uid_error_seq_finds :: "connection \<Rightarrow> string \<Rightarrow> single_event list" where
  "uid_error_seq_finds imap ident =
     [UidFetchError ''UID fetch failed'', SeqMessage FromError, SeqEnd FromError]"

definition uid_empty_seq_finds :: "connection \<Rightarrow> string \<Rightarrow> single_event list" where
  "uid_empty_seq_finds imap ident = [UidFetchEnd, SeqMessage FromEnd, SeqEnd FromEnd]"

definition no_listing_events :: "connection \<Rightarrow> string \<Rightarrow> listing_event list" where
  "no_listing_events imap r = []"

subsection \<open>Invariants of the guarded exits\<close>

text \<open>
  While a listing request has not responded, nothing was sent and the timer and both
  listeners of the fetch are still in place; once it has, exactly one response was sent.
\<close>

definition listing_inv :: "listing \<Rightarrow> bool" where
  "listing_inv s =
     (if hasResponded s then length (sent s) = 1
      else sent s = [] \<and> timeout s \<and> on_error s \<and> on_end s)"

fun completes :: "listing_event \<Rightarrow> bool" where
  "completes (Message seqno now a h) = False"
| "completes ev = True"

text \<open>The same for the exits of a single-message request that test the flag.\<close>

definition single_inv :: "single \<Rightarrow> bool" where
  "single_inv s = (if hasResponded s then length (sent s) = 1 else sent s = [])"

fun is_parse :: "single_event \<Rightarrow> bool" where
  "is_parse (Parsed p now) = True"
| "is_parse (ParseFailed message now) = True"
| "is_parse ev = False"

fun is_failure :: "response \<Rightarrow> bool" where
  "is_failure (Failure status message) = True"
| "is_failure r = False"

section \<open>Properties\<close>

subsection \<open>The range of the listing fetch\<close>

text \<open>
  Claim C4. For a mailbox with \<open>tot \<ge> 1\<close> messages the listing pipeline issues the
  sequence-number fetch over \<open>[tot - min(30, tot) + 1, tot]\<close>, handed to the library
  as the two decimal numbers around a colon; these are the highest \<open>min(30, tot)\<close>
  sequence numbers of the mailbox. For an empty mailbox it answers with the empty list
  and issues no fetch, and for 45 messages the range is \<open>16:45\<close>.
\<close>

theorem listing_range:
  "(1 \<le> tot \<longrightarrow>
      openBox_emails tot =
        SeqFetch (tot - min 30 tot + 1) tot
          (toString (tot - min 30 tot + 1) @ '':'' @ toString tot)
      \<and> {tot - min 30 tot + 1 .. tot} = {n. 1 \<le> n \<and> n \<le> tot \<and> tot - n < min 30 tot})
   \<and> openBox_emails 0 = Answer (EmailsOk [] False)
   \<and> openBox_emails 45 = SeqFetch 16 45 ''16:45''"
proof (intro conjI impI)
  assume "1 \<le> tot"
  then show "openBox_emails tot =
      SeqFetch (tot - min 30 tot + 1) tot (toString (tot - min 30 tot + 1) @ '':'' @ toString tot)"
    by (simp add: openBox_emails_def start_def lastCount_def range_str_def)
next
  assume "1 \<le> tot"
  then show "{tot - min 30 tot + 1 .. tot} = {n. 1 \<le> n \<and> n \<le> tot \<and> tot - n < min 30 tot}"
    by (auto simp: min_def)
next
  show "openBox_emails 0 = Answer (EmailsOk [] False)"
    by (simp add: openBox_emails_def)
next
  show "openBox_emails 45 = SeqFetch 16 45 ''16:45''"
    by (simp add: openBox_emails_def start_def lastCount_def range_str_def toString.simps
          digit_def)
qed

theorem listing_range_witness:
  "(1::nat) \<le> 7 \<and> openBox_emails 7 = SeqFetch 1 7 ''1:7''"
  using listing_range [of 7] by (simp add: toString.simps digit_def)

subsection \<open>The watchdog of the listing\<close>

lemma messages_only:
  "\<forall>ev \<in> set evs. is_message ev \<Longrightarrow>
     hasResponded (foldl listing_step s evs) = hasResponded s
   \<and> timeout (foldl listing_step s evs) = timeout s
   \<and> sent (foldl listing_step s evs) = sent s
   \<and> length (emails (foldl listing_step s evs)) = length (emails s) + length evs"
proof (induction evs arbitrary: s)
  case Nil
  then show ?case by simp
next
  case (Cons ev evs)
  from Cons.prems obtain n t a h where ev: "ev = Message n t a h"
    by (cases ev) auto
  have rest: "\<forall>e \<in> set evs. is_message e"
    using Cons.prems by simp
  show ?case
    using Cons.IH [OF rest, of "listing_step s ev"] by (simp add: ev Let_def)
qed

text \<open>
  Claim C5. When the watchdog of the listing fires before the fetch has ended or
  failed, that is after message events only, there is one accumulated summary per
  message; with at least one of them the response is the success body with the
  accumulated summaries and \<open>partial: true\<close>, with none it is the failure with the
  timeout message (status 500).
\<close>

theorem watchdog_partial:
  "\<forall>ev \<in> set evs. is_message ev \<Longrightarrow>
     length (emails (listing_run evs)) = length evs
   \<and> sent (listing_run (evs @ [Timeout])) =
       (if evs \<noteq> [] then [EmailsOk (emails (listing_run evs)) True]
        else [Failure 500 ZeitueberschreitungEmails])"
proof -
  assume m: "\<forall>ev \<in> set evs. is_message ev"
  note inv = messages_only [OF m, of listing_init]
  have len: "length (emails (listing_run evs)) = length evs"
    using inv by (simp add: listing_run_def listing_init_def)
  have e: "(emails (listing_run evs) \<noteq> []) = (evs \<noteq> [])"
    using len by (metis length_0_conv)
  have "sent (listing_run (evs @ [Timeout])) =
       (if emails (listing_run evs) \<noteq> [] then [EmailsOk (emails (listing_run evs)) True]
        else [Failure 500 ZeitueberschreitungEmails])"
    using inv by (simp add: listing_run_def listing_init_def Let_def)
  with len e show ?thesis by simp
qed

theorem watchdog_partial_witness:
  "list_all is_message twelve_messages
   \<and> length (emails (listing_run twelve_messages)) = 12
   \<and> sent (listing_run (twelve_messages @ [Timeout])) =
       [EmailsOk (emails (listing_run twelve_messages)) True]
   \<and> sent (listing_run ([] @ [Timeout])) = [Failure 500 ZeitueberschreitungEmails]"
proof -
  have m: "\<forall>ev \<in> set twelve_messages. is_message ev"
    by (simp add: twelve_messages_def)
  have n: "twelve_messages \<noteq> []"
    by (simp add: twelve_messages_def)
  have l: "length twelve_messages = 12"
    by (simp add: twelve_messages_def)
  show ?thesis
    using m n l watchdog_partial [OF m] watchdog_partial [of "[]"]
    by (simp add: list_all_iff)
qed

subsection \<open>Attachment detection\<close>

lemma findAttachmentParts_set:
  "set (findAttachmentParts s acc) =
     set acc \<union> {n \<in> set (nodes s). disposition_hit (disposition n) \<or> name_hit (params n)}"
  "set (findAttachmentParts_each ss acc) =
     set acc \<union> {n \<in> set (nodes_each ss). disposition_hit (disposition n) \<or> name_hit (params n)}"
  by (induction s acc and ss acc rule: findAttachmentParts_findAttachmentParts_each.induct)
     (auto simp: Let_def split: option.splits)

lemma hit_unfold:
  "(disposition_hit d \<or> name_hit p) =
     ((\<exists>t. d = Some t \<and> toLowerCase t \<in> {''attachment'', ''inline''})
      \<or> (\<exists>nm. p = Some (Some nm) \<and> nm \<noteq> []))"
  by (auto simp: disposition_hit_def name_hit_def split: option.splits)

text \<open>
  Claim C8. For the structure tree \<open>s\<close> of a listed message, \<open>hasAttachments\<close> is true
  if and only if some part of \<open>s\<close>, at any depth, has a disposition whose type is
  \<open>attachment\<close> or \<open>inline\<close> up to the case of its letters, or has params with a
  name (a non-empty string).
\<close>

theorem hasAttachments_iff:
  "attrs_struct a = Some s \<Longrightarrow>
     hasAttachments (on_attributes a e) =
       (\<exists>n \<in> set (nodes s).
          (\<exists>t. disposition n = Some t \<and> toLowerCase t \<in> {''attachment'', ''inline''})
          \<or> (\<exists>nm. params n = Some (Some nm) \<and> nm \<noteq> []))"
proof -
  assume a: "attrs_struct a = Some s"
  have "(0 < length (findAttachmentParts s [])) = (set (findAttachmentParts s []) \<noteq> {})"
    by simp
  also have "\<dots> =
      (\<exists>n \<in> set (nodes s). disposition_hit (disposition n) \<or> name_hit (params n))"
    unfolding findAttachmentParts_set(1) by auto
  finally have "(0 < length (findAttachmentParts s [])) =
      (\<exists>n \<in> set (nodes s). disposition_hit (disposition n) \<or> name_hit (params n))" .
  with a show ?thesis
    by (simp add: on_attributes_def Let_def hit_unfold split: option.splits)
qed

theorem hasAttachments_iff_witness:
  "attrs_struct \<lparr>attrs_uid = Some 7, attrs_flags = None, attrs_struct = Some a_struct\<rparr>
     = Some a_struct
   \<and> hasAttachments
       (on_attributes \<lparr>attrs_uid = Some 7, attrs_flags = None, attrs_struct = Some a_struct\<rparr>
          (new_email 3 0))
   \<and> \<not> hasAttachments
       (on_attributes \<lparr>attrs_uid = Some 7, attrs_flags = None, attrs_struct = Some plain_struct\<rparr>
          (new_email 3 0))"
proof -
  have low: "toLowerCase ''ATTACHMENT'' = ''attachment''"
    by code_simp
  show ?thesis
    using hasAttachments_iff [of "\<lparr>attrs_uid = Some 7, attrs_flags = None,
              attrs_struct = Some a_struct\<rparr>" a_struct "new_email 3 0"]
          hasAttachments_iff [of "\<lparr>attrs_uid = Some 7, attrs_flags = None,
              attrs_struct = Some plain_struct\<rparr>" plain_struct "new_email 3 0"]
    by (simp add: a_struct_def plain_struct_def low)
qed

subsection \<open>The session check\<close>

lemma no_session:
  "sessionId = None \<or> (\<exists>k. sessionId = Some k \<and> activeConnections k = None)
   \<Longrightarrow> session activeConnections sessionId = None"
  by (auto simp: session_def has_def truthy_def)

text \<open>
  Claim C9. Each of the five handlers that take a session (folders, emails, email by
  id, send, forward) answers a request whose session id is absent or not in the
  registry with status 401 and the invalid-session error and nothing else, whatever
  the connection, the parser or the transport would have done: no pipeline work
  precedes the rejection.
\<close>

theorem invalid_session_rejected:
  "sessionId = None \<or> (\<exists>k. sessionId = Some k \<and> activeConnections k = None) \<Longrightarrow>
     get_folders activeConnections sessionId getBoxes = [Failure 401 UngueltigeSession]
   \<and> get_emails activeConnections sessionId folder openBox levents
        = [Failure 401 UngueltigeSession]
   \<and> get_email activeConnections sessionId folder ident openBox fetch_throws seq_throws sevents
        = [Failure 401 UngueltigeSession]
   \<and> post_send_email activeConnections sessionId mail sendMail
        = [Failure 401 UngueltigeSession]
   \<and> post_forward_email activeConnections sessionId req fevents sendMail toLocaleString now
        = [Failure 401 UngueltigeSession]"
  by (simp add: no_session get_folders_def get_emails_def get_email_def post_send_email_def
        post_forward_email_def)

theorem invalid_session_rejected_witness:
  "a_registry ''s2'' = None
   \<and> get_folders a_registry (Some ''s2'') no_boxes = [Failure 401 UngueltigeSession]
   \<and> get_emails a_registry None None opens no_listing_events
        = [Failure 401 UngueltigeSession]
   \<and> get_email a_registry (Some ''s2'') None ''42'' opens None None parser_late
        = [Failure 401 UngueltigeSession]
   \<and> post_send_email a_registry None an_outgoing smtp_accepts
        = [Failure 401 UngueltigeSession]
   \<and> post_forward_email a_registry (Some ''s2'') a_forward fetch_fails smtp_accepts
        render_date 0 = [Failure 401 UngueltigeSession]"
proof -
  have u: "a_registry ''s2'' = None"
    by (simp add: a_registry_def)
  show ?thesis
    using u
      invalid_session_rejected [of "Some ''s2''" a_registry no_boxes None opens
        no_listing_events "''42''" None None parser_late an_outgoing smtp_accepts a_forward
        fetch_fails render_date 0]
      invalid_session_rejected [of None a_registry no_boxes None opens
        no_listing_events "''42''" None None parser_late an_outgoing smtp_accepts a_forward
        fetch_fails render_date 0]
    by simp
qed

subsection \<open>The body of a message without HTML part\<close>

lemma single_run_snoc:
  "single_run ident seq_throws (evs @ [ev])
     = single_step ident seq_throws (single_run ident seq_throws evs) ev"
  by (simp add: single_run_def)

text \<open>
  Claim C10. When the parsed message has no HTML part (none, or the empty string) but
  a non-empty \<open>textAsHtml\<close> rendering \<open>t\<close>, the body chosen for it is \<open>t\<close> itself:
  the patterns that strip script blocks and event-handler attributes are not applied
  to it. Whatever happened to the request before the parser delivers the message:
  unless \<open>to\<close> is an array, the message object is built with \<open>t\<close> as its body, and
  the parser's callback sends this object and nothing else, or sends nothing when the
  request was already completed or answered; when \<open>to\<close> is an array, building the
  object throws and the callback sends nothing.
\<close>

theorem textAsHtml_verbatim:
  "\<not> truthy (parsed_html p) \<Longrightarrow> parsed_textAsHtml p = Some t \<Longrightarrow> t \<noteq> [] \<Longrightarrow>
     sanitizedHtml p = t
   \<and> ((\<forall>ts. parsed_to p \<noteq> Some (Several ts)) \<longrightarrow>
        (\<exists>e. emailData ident p now = Inr e \<and> body e = t
           \<and> sent (single_run ident seq_throws (evs @ [Parsed p now])) =
               (if fetchCompleted (single_run ident seq_throws evs)
                   \<or> hasResponded (single_run ident seq_throws evs)
                then sent (single_run ident seq_throws evs)
                else sent (single_run ident seq_throws evs) @ [EmailOk e False])))
   \<and> ((\<exists>ts. parsed_to p = Some (Several ts)) \<longrightarrow>
        emailData ident p now = Inl TypeError
        \<and> sent (single_run ident seq_throws (evs @ [Parsed p now]))
            = sent (single_run ident seq_throws evs))"
proof (intro conjI impI)
  assume h: "\<not> truthy (parsed_html p)" "parsed_textAsHtml p = Some t" "t \<noteq> []"
  then show body: "sanitizedHtml p = t"
    by (simp add: sanitizedHtml_def truthy_def or_else_def)
  {
    assume one: "\<forall>ts. parsed_to p \<noteq> Some (Several ts)"
    then have "\<exists>rs. to_recipients (parsed_to p) = Inr rs"
      by (auto simp: to_recipients_def split: option.splits address_field.splits)
    then obtain rs where rs: "to_recipients (parsed_to p) = Inr rs"
      by blast
    then obtain e where e: "emailData ident p now = Inr e" "body e = sanitizedHtml p"
      by (simp add: emailData_def)
    have "sent (single_run ident seq_throws (evs @ [Parsed p now])) =
               (if fetchCompleted (single_run ident seq_throws evs)
                   \<or> hasResponded (single_run ident seq_throws evs)
                then sent (single_run ident seq_throws evs)
                else sent (single_run ident seq_throws evs) @ [EmailOk e False])"
      by (simp add: single_run_snoc e(1) respond_def Let_def)
    with e body
    show "\<exists>e. emailData ident p now = Inr e \<and> body e = t
           \<and> sent (single_run ident seq_throws (evs @ [Parsed p now])) =
               (if fetchCompleted (single_run ident seq_throws evs)
                   \<or> hasResponded (single_run ident seq_throws evs)
                then sent (single_run ident seq_throws evs)
                else sent (single_run ident seq_throws evs) @ [EmailOk e False])"
      by auto
  }
  {
    assume "\<exists>ts. parsed_to p = Some (Several ts)"
    then show thrown: "emailData ident p now = Inl TypeError"
      by (auto simp: emailData_def to_recipients_def)
    then show "sent (single_run ident seq_throws (evs @ [Parsed p now]))
            = sent (single_run ident seq_throws evs)"
      by (simp add: single_run_snoc)
  }
qed

theorem textAsHtml_verbatim_witness:
  "\<not> truthy (parsed_html (text_only nested_script))
   \<and> parsed_textAsHtml (text_only nested_script) = Some nested_script
   \<and> nested_script \<noteq> []
   \<and> parsed_to (text_only nested_script) = None
   \<and> sanitizedHtml (text_only nested_script) = nested_script
   \<and> sent (single_run ''42'' None ([] @ [Parsed (text_only nested_script) 0])) =
       [EmailOk \<lparr>email_id = ''42'', uid = None, subject = ''Hello'',
                 sender = \<lparr>addr_name = [], addr_address = []\<rparr>, recipients = [],
                 date = 0, body = ''<scr<script></script>ipt>alert(1)</script>'',
                 isRead = True, hasAttachments = False\<rparr> False]
   \<and> sent (single_run ''42'' None
             ([UidFetchEnd, SeqEnd FromEnd] @ [Parsed (text_only nested_script) 0])) =
       [Failure 404 EmailNichtGefunden]
   \<and> parsed_to (two_to_lines nested_script)
       = Some (Several
           [\<lparr>ao_value = [\<lparr>addr_name = [], addr_address = ''a@example.org''\<rparr>],
              ao_text = ''a@example.org''\<rparr>,
            \<lparr>ao_value = [\<lparr>addr_name = [], addr_address = ''b@example.org''\<rparr>],
              ao_text = ''b@example.org''\<rparr>])
   \<and> sanitizedHtml (two_to_lines nested_script) = nested_script
   \<and> sent (single_run ''42'' None ([] @ [Parsed (two_to_lines nested_script) 0])) = []"
proof -
  have i: "single_run ''42'' None [] = single_init"
    by (simp add: single_run_def)
  have n: "sent (single_run ''42'' None [UidFetchEnd, SeqEnd FromEnd])
             = [Failure 404 EmailNichtGefunden]
           \<and> hasResponded (single_run ''42'' None [UidFetchEnd, SeqEnd FromEnd])"
    by (simp add: single_run_def single_init_def respond_def Let_def)
  show ?thesis
    using textAsHtml_verbatim [of "text_only nested_script" nested_script "''42''" 0 None "[]"]
      textAsHtml_verbatim [of "text_only nested_script" nested_script "''42''" 0 None
        "[UidFetchEnd, SeqEnd FromEnd]"]
      textAsHtml_verbatim [of "two_to_lines nested_script" nested_script "''42''" 0 None "[]"]
      i n
    by (auto simp: text_only_def two_to_lines_def truthy_def nested_script_def single_init_def
          emailData_def to_recipients_def or_else_def)
qed

text \<open>
  A message with several \<open>To\<close> lines is never delivered: the parser's callback
  sends nothing, and the only response is that of the watchdog.
\<close>

lemma array_to_only_watchdog_answers:
  "parsed_to p = Some (Several ts) \<Longrightarrow>
     sent (single_run ident seq_throws [Parsed p now, Watchdog])
       = [Failure 504 ZeitueberschreitungEmail]"
  by (simp add: single_run_def single_init_def emailData_def to_recipients_def)

subsection \<open>The folder list\<close>

lemma join_snoc:
  "join sep (anc @ [b]) = (if anc = [] then b else join sep anc @ sep @ b)"
  by (induction sep anc rule: join.induct) auto

lemma processBoxes_chains:
  "processBoxes boxes (if anc = [] then [] else join ''/'' anc @ ''/'')
     = map entry (chains anc boxes)"
proof (induction anc boxes rule: chains.induct)
  case (1 anc)
  then show ?case by simp
next
  case (2 anc name d ch boxObj)
  show ?case
  proof (cases ch)
    case None
    then show ?thesis
      using "2.IH"(2)
      by (cases "anc = []") (simp_all add: entry_def join_snoc Let_def)
  next
    case (Some c)
    then show ?thesis
      using "2.IH"(1) [OF Some] "2.IH"(2)
      by (cases "anc = []") (simp_all add: entry_def join_snoc Let_def)
  qed
qed

text \<open>
  Claim C6, as the code has it. For a folder tree of any depth the folder lister emits
  one entry per node, parents before children, with the node's own name as \<open>name\<close>
  and, as \<open>id\<close> and \<open>path\<close>, the names from the root down to the node joined with
  a slash. The delimiter the server reports is not read.
\<close>

theorem folders_complete:
  "processBoxes boxes [] = map entry (chains [] boxes)"
  using processBoxes_chains [of boxes "[]"] by simp

text \<open>
  On a server whose delimiter is the dot the paths of the code and the paths joined
  with the server's delimiter differ.
\<close>

theorem folders_delimiter_counterexample:
  "map folder_path (processBoxes dotted_boxes []) = [''INBOX'', ''INBOX/Sent'']
   \<and> map folder_path (spec_folders dotted_boxes []) = [''INBOX'', ''INBOX.Sent'']
   \<and> processBoxes dotted_boxes [] \<noteq> spec_folders dotted_boxes []"
  by (simp add: dotted_boxes_def Let_def)

subsection \<open>One response per request\<close>

lemma listing_step_inv:
  "listing_inv s \<Longrightarrow>
     listing_inv (listing_step s ev)
   \<and> (hasResponded s \<or> completes ev \<longrightarrow> hasResponded (listing_step s ev))"
  by (cases ev) (auto simp: listing_inv_def Let_def split: if_splits)

lemma listing_run_inv:
  "listing_inv s \<Longrightarrow>
     listing_inv (foldl listing_step s evs)
   \<and> (hasResponded s \<or> (\<exists>ev \<in> set evs. completes ev)
        \<longrightarrow> hasResponded (foldl listing_step s evs))"
proof (induction evs arbitrary: s)
  case Nil
  then show ?case by simp
next
  case (Cons ev evs)
  note st = listing_step_inv [OF Cons.prems, of ev]
  from st have i: "listing_inv (listing_step s ev)"
    by simp
  show ?case
    using Cons.IH [OF i] st by auto
qed

text \<open>
  The listing keeps the promise: never two responses, and exactly one as soon as the
  fetch has ended or failed or the watchdog has fired.
\<close>

lemma listing_one_response:
  "length (sent (listing_run evs)) \<le> 1"
  "\<exists>ev \<in> set evs. completes ev \<Longrightarrow> length (sent (listing_run evs)) = 1"
proof -
  have i: "listing_inv listing_init"
    by (simp add: listing_inv_def listing_init_def)
  note r = listing_run_inv [OF i, of evs]
  show "length (sent (listing_run evs)) \<le> 1"
    using r by (auto simp: listing_run_def listing_inv_def split: if_splits)
  show "length (sent (listing_run evs)) = 1" if "\<exists>ev \<in> set evs. completes ev"
    using r that by (auto simp: listing_run_def listing_inv_def split: if_splits)
qed

lemma single_step_inv:
  "single_inv s \<Longrightarrow> ev \<noteq> Watchdog \<Longrightarrow> single_inv (single_step ident seq_throws s ev)"
proof (cases ev)
  case (SeqEnd x)
  assume "single_inv s"
  then show ?thesis
    by (cases x) (auto simp: SeqEnd single_inv_def respond_def Let_def split: if_splits)
qed (auto simp: single_inv_def respond_def Let_def split: if_splits option.splits sum.splits)

text \<open>So does the single-message pipeline as long as its watchdog does not fire.\<close>

lemma guarded_exits_one_response:
  "Watchdog \<notin> set evs \<Longrightarrow> length (sent (single_run ident seq_throws evs)) \<le> 1"
proof -
  assume w: "Watchdog \<notin> set evs"
  have "single_inv s \<Longrightarrow> Watchdog \<notin> set evs
          \<Longrightarrow> single_inv (foldl (single_step ident seq_throws) s evs)" for s
  proof (induction evs arbitrary: s)
    case Nil
    then show ?case by simp
  next
    case (Cons ev evs)
    have "single_inv (single_step ident seq_throws s ev)"
      using Cons.prems by (intro single_step_inv) auto
    then show ?case
      using Cons by simp
  qed
  moreover have "single_inv single_init"
    by (simp add: single_inv_def single_init_def)
  ultimately have "single_inv (single_run ident seq_throws evs)"
    using w by (simp add: single_run_def)
  then show ?thesis
    by (auto simp: single_inv_def split: if_splits)
qed

text \<open>
  Claim C1 fails on the single-message pipeline. Its watchdog answers with status 504
  without testing or setting the flag, so when the parser delivers after the watchdog
  has fired, the handler calls \<open>res.json\<close> a second time: two responses for one
  request, for every identifier and every parsed message whose message object can be
  built, and for the request of session \<open>s1\<close> for message 42.
\<close>

theorem watchdog_then_parsed_two_responses:
  "sent (single_run ident seq_throws [Watchdog, Parsed p now])
     = Failure 504 ZeitueberschreitungEmail
       # (case emailData ident p now of Inl err \<Rightarrow> [] | Inr e \<Rightarrow> [EmailOk e False])
   \<and> get_email a_registry (Some ''s1'') None ''42'' opens None None parser_late
     = [Failure 504 ZeitueberschreitungEmail,
        EmailOk \<lparr>email_id = ''42'', uid = None, subject = ''Hello'',
                 sender = \<lparr>addr_name = [], addr_address = []\<rparr>, recipients = [],
                 date = 0, body = ''<p>Hi</p>'', isRead = True, hasAttachments = False\<rparr>
          False]"
proof
  show "sent (single_run ident seq_throws [Watchdog, Parsed p now])
     = Failure 504 ZeitueberschreitungEmail
       # (case emailData ident p now of Inl err \<Rightarrow> [] | Inr e \<Rightarrow> [EmailOk e False])"
    by (simp add: single_run_def single_init_def respond_def Let_def split: sum.splits)
next
  have clean: "sanitize ''<p>Hi</p>'' = ''<p>Hi</p>''"
    by code_simp
  have e: "emailData ''42'' (html_only ''<p>Hi</p>'') 5 =
      Inr \<lparr>email_id = ''42'', uid = None, subject = ''Hello'',
            sender = \<lparr>addr_name = [], addr_address = []\<rparr>, recipients = [],
            date = 0, body = ''<p>Hi</p>'', isRead = True, hasAttachments = False\<rparr>"
    by (simp add: emailData_def to_recipients_def html_only_def sanitizedHtml_def truthy_def
          or_else_def clean)
  show "get_email a_registry (Some ''s1'') None ''42'' opens None None parser_late
     = [Failure 504 ZeitueberschreitungEmail,
        EmailOk \<lparr>email_id = ''42'', uid = None, subject = ''Hello'',
                 sender = \<lparr>addr_name = [], addr_address = []\<rparr>, recipients = [],
                 date = 0, body = ''<p>Hi</p>'', isRead = True, hasAttachments = False\<rparr>
          False]"
    by (simp add: get_email_def session_def truthy_def has_def get_def a_registry_def opens_def
          parser_late_def single_run_def single_init_def respond_def Let_def e)
qed

subsection \<open>The sequence-number fallback\<close>

lemma step_without_parse:
  "\<not> is_parse ev \<Longrightarrow> list_all is_failure (sent s)
     \<Longrightarrow> list_all is_failure (sent (single_step ident seq_throws s ev))"
proof (cases ev)
  case (SeqEnd x)
  assume "list_all is_failure (sent s)"
  then show ?thesis
    by (cases x) (auto simp: SeqEnd respond_def Let_def)
qed (auto simp: respond_def Let_def split: option.splits sum.splits)

text \<open>
  Without a message parsed from the UID fetch no response is a success, whatever the
  sequence-number fetch delivers.
\<close>

lemma fallback_never_succeeds:
  "list_all (\<lambda>ev. \<not> is_parse ev) evs
     \<Longrightarrow> list_all is_failure (sent (single_run ident seq_throws evs))"
proof -
  have "list_all (\<lambda>ev. \<not> is_parse ev) evs \<Longrightarrow> list_all is_failure (sent s)
          \<Longrightarrow> list_all is_failure (sent (foldl (single_step ident seq_throws) s evs))" for s
  proof (induction evs arbitrary: s)
    case Nil
    then show ?case by simp
  next
    case (Cons ev evs)
    have "list_all is_failure (sent (single_step ident seq_throws s ev))"
      using Cons.prems by (intro step_without_parse) auto
    then show ?case
      using Cons by simp
  qed
  moreover assume "list_all (\<lambda>ev. \<not> is_parse ev) evs"
  ultimately show ?thesis
    by (simp add: single_run_def single_init_def)
qed

text \<open>
  Claim C2 fails on the code. The sequence-number fetch is issued when the UID fetch
  fails or ends without a message, but no \<open>message\<close> listener is attached to it: when
  it delivers the message and ends, the response is status 404, not the message. This
  is so for the fallback of the \<open>error\<close> listener and for that of the \<open>end\<close> listener.
\<close>

theorem seq_fallback_finds_but_404:
  "get_email a_registry (Some ''s1'') None ''42'' opens None None uid_error_seq_finds
     = [Failure 404 EmailNichtGefunden]
   \<and> get_email a_registry (Some ''s1'') None ''42'' opens None None uid_empty_seq_finds
     = [Failure 404 EmailNichtGefunden]"
  by (simp add: get_email_def session_def truthy_def has_def get_def a_registry_def opens_def
        uid_error_seq_finds_def uid_empty_seq_finds_def single_run_def single_init_def
        respond_def Let_def)

subsection \<open>Forwarding an original that cannot be fetched\<close>

lemma settled_sticky:
  "settled s = Some r \<Longrightarrow> settled (foldl forward_step s evs) = Some r"
proof (induction evs arbitrary: s)
  case Nil
  then show ?case by simp
next
  case (Cons ev evs)
  have "settled (forward_step s ev) = Some r"
    using Cons.prems by (cases ev) (simp_all add: settle_def Let_def)
  then show ?case
    using Cons.IH by simp
qed

lemma await_first:
  "await_original (OriginalFetchEnd t # rest) = Some (Inr (placeholder t))"
  "await_original (OriginalFetchError err # rest) = Some (Inl err)"
  by (simp_all add: await_original_def settled_sticky settle_def Let_def)

text \<open>
  Claim C3, as the code has it. With a valid session, when the fetch of the original
  ends without a message, the placeholder (unknown subject, sender and recipient, empty
  text and HTML) takes its place, the forward is composed from it and handed to the
  transport, and the request fails only if sending fails. When the fetch reports an
  error the request is answered with status 500 and nothing is sent.
\<close>

theorem forward_placeholder:
  "session activeConnections sessionId = Some imap \<Longrightarrow>
     (fevents imap (fwd_folder req) (fwd_originalEmailId req) = OriginalFetchEnd t # rest \<longrightarrow>
        post_forward_email activeConnections sessionId req fevents sendMail toLocaleString now =
          (case sendMail (forward_transport imap)
                  (forward_options imap req toLocaleString now (placeholder t)) of
             Inl err \<Rightarrow> [Failure 500 (LibError err)]
           | Inr messageId \<Rightarrow> [SentOk messageId]))
   \<and> mail_subject (forward_options imap req toLocaleString now (placeholder t))
        = Some ''Fwd: Unbekannter Betreff''
   \<and> quoted_from (placeholder t) = ''Unbekannt'' \<and> quoted_to (placeholder t) = ''Unbekannt''
   \<and> parsed_text (placeholder t) = Some [] \<and> parsed_html (placeholder t) = Some []
   \<and> (fevents imap (fwd_folder req) (fwd_originalEmailId req) = OriginalFetchError err # rest \<longrightarrow>
        post_forward_email activeConnections sessionId req fevents sendMail toLocaleString now =
          [Failure 500 (LibError err)])"
  by (simp add: post_forward_email_def await_first forward_options_def forward_subject_def
        placeholder_def quoted_from_def quoted_to_def or_else_def)

theorem forward_placeholder_witness:
  "session a_registry (Some ''s1'') = Some a_connection
   \<and> fetch_finds_nothing a_connection (fwd_folder a_forward) (fwd_originalEmailId a_forward)
        = OriginalFetchEnd 1000 # []
   \<and> post_forward_email a_registry (Some ''s1'') a_forward fetch_finds_nothing smtp_accepts
        render_date 0 = [SentOk ''<1@example.org>'']"
proof -
  have s: "session a_registry (Some ''s1'') = Some a_connection"
    by (simp add: session_def truthy_def has_def get_def a_registry_def)
  show ?thesis
    using s forward_placeholder [OF s, of fetch_finds_nothing a_forward 1000 "[]"
        smtp_accepts render_date 0]
    by (simp add: fetch_finds_nothing_def smtp_accepts_def)
qed

text \<open>
  A fetch error on a valid session, with a transport that would accept the mail: the
  request fails with status 500.
\<close>

theorem forward_fetch_error_counterexample:
  "post_forward_email a_registry (Some ''s1'') a_forward fetch_fails smtp_accepts render_date 0
     = [Failure 500 (LibError ''Invalid messageset'')]"
  by (simp add: post_forward_email_def session_def truthy_def has_def get_def a_registry_def
        fetch_fails_def await_original_def settle_def)

subsection \<open>What the sanitiser leaves behind\<close>

text \<open>
  Claim C7 fails on the code. Each pattern is removed in one pass and the result is not
  looked at again, so what the removal of a match joins is kept: the first body
  contains a script block and its sanitised form is a script block, the second contains
  a double-quoted \<open>on\<close> attribute and its sanitised form contains \<open>onclick\<close> with its
  double-quoted value.
\<close>

theorem sanitize_leaves_script:
  "contains_match match_script nested_script
   \<and> sanitizedHtml (html_only nested_script) = ''<script>alert(1)</script>''
   \<and> contains_match match_script (sanitizedHtml (html_only nested_script))
   \<and> contains_match (match_handler dquote) nested_handler
   \<and> sanitizedHtml (html_only nested_handler)
        = ''<a onclick='' @ [dquote] @ ''x()'' @ [dquote] @ ''>''
   \<and> contains_match (match_handler dquote) (sanitizedHtml (html_only nested_handler))"
  by code_simp

end
